theory Spec2Isabelle
  imports Complex_Main
begin

section \<open>Hydrometric use case: station selection and time series assembly\<close>

text \<open>
  The notebook \<^verbatim>\<open>docs/use-case_oafeat-interactive_en.ipynb\<close> (and its French twin) is
  straight-line Python over four libraries. The two parts with logic of their own are
  the cell that keeps the stations inside the buffer zone and the cell that builds one
  data frame of daily mean water levels per station. Both are embedded here; what the
  libraries compute (reprojection, buffering, intersection, the HTTP requests) enters
  as parameters.
\<close>

subsection \<open>Exceptions\<close>

text \<open>
  The messages of the two \<^verbatim>\<open>ValueError\<close>s that the notebook manages to raise (the
  second one is an f-string over \<^verbatim>\<open>buffer\<close>), and the one of \<^verbatim>\<open>list.remove\<close>.
\<close>

datatype message =
    NoStationsFound
  | NoStationsWithin real
  | NotInList

datatype py_error =
    ValueError message
  | TypeError
  | NameError string
  | IndexError

subsection \<open>Data frames of daily mean water levels\<close>

text \<open>
  One row of \<^verbatim>\<open>historical_data_df\<close>, with the six columns the notebook asks for. A
  \<^verbatim>\<open>LEVEL\<close> that is null in the response is \<^verbatim>\<open>NaN\<close> after
  \<^verbatim>\<open>fillna(value=np.nan)\<close>; it is \<open>None\<close> here. The frame has the default
  \<^verbatim>\<open>RangeIndex\<close> while it is cleaned, so the label of the last row is its position
  and a frame is the list of its rows.
\<close>

record row =
  STATION_NUMBER :: string
  STATION_NAME :: string
  DATE :: string
  LEVEL :: "real option"
  LATITUDE :: real
  LONGITUDE :: real

type_synonym dataframe = "row list"

text \<open>\<^verbatim>\<open>np.isnan\<close> on one value of the \<^verbatim>\<open>LEVEL\<close> column.\<close>

definition isnan :: "real option \<Rightarrow> bool" where
  "isnan v = (v = None)"

text \<open>\<^verbatim>\<open>historical_data_df["LEVEL"].isnull().all()\<close>\<close>

definition all_null :: "dataframe \<Rightarrow> bool" where
  "all_null df = list_all (\<lambda>r. LEVEL r = None) df"

text \<open>
  The loop
  \<^verbatim>\<open>while np.isnan(df["LEVEL"].iloc[-1]): df = df.drop(df.tail(1).index)\<close>.
  \<^verbatim>\<open>iloc[-1]\<close> raises \<^verbatim>\<open>IndexError\<close> on a frame without rows.
\<close>

function drop_trailing_nan :: "dataframe \<Rightarrow> py_error + dataframe" where
  "drop_trailing_nan df =
     (if df = [] then Inl IndexError
      else if isnan (LEVEL (last df)) then drop_trailing_nan (butlast df)
      else Inr df)"
  by pat_completeness auto
termination
  by (relation "measure length") auto

declare drop_trailing_nan.simps [simp del]


subsection \<open>Stations inside the buffer zone\<close>

text \<open>
  A feature of the \<^verbatim>\<open>hydrometric-stations\<close> layer: the attribute the loop reads and the
  geometry \<^verbatim>\<open>GetGeometryRef\<close> returns. The geometry type \<open>'g\<close> is GDAL's.
\<close>

datatype 'g feature =
  Feature (feature_STATION_NUMBER: string) (GetGeometryRef: 'g)

text \<open>
  What the cells read of the response: the value under the key \<^verbatim>\<open>"features"\<close> (\<open>None\<close>
  when the key is absent) and the outcome of \<^verbatim>\<open>SR.GetAuthorityCode(None)\<close> on the
  layer's spatial reference, which is \<^verbatim>\<open>None\<close> when the reference names no authority
  and else the code that \<^verbatim>\<open>int(epsg)\<close> reads.
\<close>

record 'g station_data =
  features :: "'g feature list option"
  epsg :: "int option"

text \<open>
  The GDAL operations the cell calls: \<^verbatim>\<open>ogr.Geometry(ogr.wkbPoint)\<close> with
  \<^verbatim>\<open>AddPoint(long, lat)\<close>, \<^verbatim>\<open>Transform\<close> under the
  \<^verbatim>\<open>CoordinateTransformation\<close> from one EPSG code to another, \<^verbatim>\<open>Buffer\<close> and
  \<^verbatim>\<open>Intersects\<close>.
\<close>

record 'g gdal =
  Point :: "real \<Rightarrow> real \<Rightarrow> 'g"
  Transform :: "int \<Rightarrow> int \<Rightarrow> 'g \<Rightarrow> 'g"
  Buffer :: "'g \<Rightarrow> real \<Rightarrow> 'g"
  Intersects :: "'g \<Rightarrow> 'g \<Rightarrow> bool"

text \<open>
  The loop \<^verbatim>\<open>for feature in layer\<close>, which appends to \<^verbatim>\<open>stations\<close> the number of
  each feature whose reprojected geometry intersects \<^verbatim>\<open>point_buffer\<close>.
\<close>

fun selection_loop ::
  "'g gdal \<Rightarrow> ('g \<Rightarrow> 'g) \<Rightarrow> 'g \<Rightarrow> 'g feature list \<Rightarrow> string list \<Rightarrow> string list" where
  "selection_loop G transform point_buffer [] stations = stations"
| "selection_loop G transform point_buffer (feature # layer) stations =
     (let geom = transform (GetGeometryRef feature)
      in if Intersects G geom point_buffer
         then selection_loop G transform point_buffer layer
                (stations @ [feature_STATION_NUMBER feature])
         else selection_loop G transform point_buffer layer stations)"

text \<open>
  The two cells "Retrieval of hydrometric stations data" (from its verification on) and
  "List of stations located inside the buffer zone". \<^verbatim>\<open>int(None)\<close> raises
  \<^verbatim>\<open>TypeError\<close>.
\<close>

definition select_within_radius ::
  "'g gdal \<Rightarrow> real \<Rightarrow> real \<Rightarrow> real \<Rightarrow> int \<Rightarrow> 'g station_data \<Rightarrow> py_error + string list" where
  "select_within_radius G lat long buffer projection station_data =
     (case features station_data of
        None \<Rightarrow> Inl (ValueError NoStationsFound)
      | Some layer \<Rightarrow>
          if layer = [] then Inl (ValueError NoStationsFound)
          else
            (case epsg station_data of
               None \<Rightarrow> Inl TypeError
             | Some code \<Rightarrow>
                 let transform = Transform G code projection;
                     point_buffer = Buffer G (transform (Point G long lat)) (buffer * 1000);
                     stations = selection_loop G transform point_buffer layer []
                 in if stations = [] then Inl (ValueError (NoStationsWithin buffer))
                    else Inr stations))"

text \<open>The test of the loop on one feature, with the transformation and the buffer spelt out.\<close>

definition in_buffer_zone ::
  "'g gdal \<Rightarrow> real \<Rightarrow> real \<Rightarrow> real \<Rightarrow> int \<Rightarrow> int \<Rightarrow> 'g feature \<Rightarrow> bool" where
  "in_buffer_zone G lat long buffer projection code feature =
     Intersects G (Transform G code projection (GetGeometryRef feature))
       (Buffer G (Transform G code projection (Point G long lat)) (buffer * 1000))"

text \<open>
  A plane geometry to run the selection on: a point or a disc is its centre and its
  radius in metres, coordinates are metres already, and two discs intersect when their
  centres are no further apart than the sum of the radii.
\<close>

definition plane_gdal :: "(real \<times> real \<times> real) gdal" where
  "plane_gdal =
     \<lparr>Point = (\<lambda>x y. (x, y, 0)),
      Transform = (\<lambda>src dst g. g),
      Buffer = (\<lambda>g d. (fst g, fst (snd g), snd (snd g) + d)),
      Intersects = (\<lambda>a b.
        (fst a - fst b)\<^sup>2 + (fst (snd a) - fst (snd b))\<^sup>2 \<le> (snd (snd a) + snd (snd b))\<^sup>2)\<rparr>"

subsection \<open>The geometry of the specification\<close>





subsection \<open>One data frame per station\<close>

text \<open>
  The dictionary \<^verbatim>\<open>hydrometric_data\<close> and the list \<^verbatim>\<open>stations_without_data\<close>.
\<close>

record hydro_state =
  hydrometric_data :: "string \<rightharpoonup> dataframe"
  stations_without_data :: "string list"

definition initial_state :: hydro_state where
  "initial_state = \<lparr>hydrometric_data = Map.empty, stations_without_data = []\<rparr>"

text \<open>
  The loop \<^verbatim>\<open>for station in stations\<close>. \<open>hydro_data station\<close> is the frame built from
  the features that the request for this station returns, after \<^verbatim>\<open>fillna\<close>; it has no
  rows when the response has no features. The response is a feature collection, so the
  key \<^verbatim>\<open>"features"\<close> is there, and the same station gets the same response each time
  it is asked for. Turning the \<^verbatim>\<open>DATE\<close> column into the index changes neither the
  rows kept nor their order, and is left out.
\<close>

fun assemble :: "(string \<Rightarrow> dataframe) \<Rightarrow> string list \<Rightarrow> hydro_state \<Rightarrow> py_error + hydro_state" where
  "assemble hydro_data [] st = Inr st"
| "assemble hydro_data (station # stations) st =
     (if hydro_data station \<noteq> [] then
        if \<not> all_null (hydro_data station) then
          (case drop_trailing_nan (hydro_data station) of
             Inl e \<Rightarrow> Inl e
           | Inr historical_data_df \<Rightarrow>
               assemble hydro_data stations
                 (st\<lparr>hydrometric_data := (hydrometric_data st)(station \<mapsto> historical_data_df)\<rparr>))
        else
          assemble hydro_data stations
            (st\<lparr>stations_without_data := stations_without_data st @ [station]\<rparr>)
      else
        assemble hydro_data stations
          (st\<lparr>stations_without_data := stations_without_data st @ [station]\<rparr>))"

text \<open>\<^verbatim>\<open>list.remove\<close>: the first occurrence goes; a value that is not there raises.\<close>

definition list_remove :: "'a list \<Rightarrow> 'a \<Rightarrow> py_error + 'a list" where
  "list_remove xs x = (if x \<in> set xs then Inr (remove1 x xs) else Inl (ValueError NotInList))"

text \<open>\<^verbatim>\<open>for station in stations_without_data: stations.remove(station)\<close>\<close>

fun remove_stations :: "string list \<Rightarrow> string list \<Rightarrow> py_error + string list" where
  "remove_stations [] stations = Inr stations"
| "remove_stations (station # rest) stations =
     (case list_remove stations station of
        Inl e \<Rightarrow> Inl e
      | Inr stations' \<Rightarrow> remove_stations rest stations')"

text \<open>
  The whole cell "Retrieval of hydrometric data for each station". Its last statement
  builds the message of a \<^verbatim>\<open>ValueError\<close> from \<^verbatim>\<open>num_months\<close>, a name that no cell
  binds, so evaluating the f-string raises \<^verbatim>\<open>NameError\<close>. The cell changes the list
  \<^verbatim>\<open>stations\<close> that the selection left, in place, with \<^verbatim>\<open>stations.remove\<close>: the result
  is the final state and the value of \<^verbatim>\<open>stations\<close> after the cell.
\<close>

definition build_series ::
  "(string \<Rightarrow> dataframe) \<Rightarrow> string list \<Rightarrow> py_error + hydro_state \<times> string list" where
  "build_series hydro_data stations =
     (case assemble hydro_data stations initial_state of
        Inl e \<Rightarrow> Inl e
      | Inr st \<Rightarrow>
          (case remove_stations (stations_without_data st) stations of
             Inl e \<Rightarrow> Inl e
           | Inr stations' \<Rightarrow>
               if stations' = [] then Inl (NameError ''num_months'')
               else Inr (st, stations')))"

text \<open>
  The value of the variable \<^verbatim>\<open>stations\<close> once the cell has run, to set against the
  value it had before.
\<close>

definition stations_after_cell :: "(string \<Rightarrow> dataframe) \<Rightarrow> string list \<Rightarrow> py_error + string list" where
  "stations_after_cell hydro_data stations = map_sum id snd (build_series hydro_data stations)"

text \<open>The rows left once the trailing rows without a level are gone.\<close>

definition trimmed :: "dataframe \<Rightarrow> dataframe" where
  "trimmed df = rev (dropWhile (\<lambda>r. LEVEL r = None) (rev df))"

subsection \<open>Worked examples\<close>

text \<open>A row of station \<open>station\<close> on day \<open>d\<close> with level \<open>v\<close>.\<close>

definition obs :: "string \<Rightarrow> string \<Rightarrow> real option \<Rightarrow> row" where
  "obs station d v =
     \<lparr>STATION_NUMBER = station, STATION_NAME = station, DATE = d, LEVEL = v,
      LATITUDE = 49, LONGITUDE = -122\<rparr>"

text \<open>
  Station \<open>X\<close> has a level on the first of three days only, station \<open>Y\<close> has three days
  without a level, station \<open>Z\<close> has a gap in the middle, and any other station has no
  rows for the period.
\<close>

definition example_data :: "string \<Rightarrow> dataframe" where
  "example_data station =
     (if station = ''X'' then
        [obs ''X'' ''2018-06-01'' (Some 1.2), obs ''X'' ''2018-06-02'' None,
         obs ''X'' ''2018-06-03'' None]
      else if station = ''Y'' then
        [obs ''Y'' ''2018-06-01'' None, obs ''Y'' ''2018-06-02'' None,
         obs ''Y'' ''2018-06-03'' None]
      else if station = ''Z'' then
        [obs ''Z'' ''2018-06-01'' (Some 0.5), obs ''Z'' ''2018-06-02'' None,
         obs ''Z'' ''2018-06-03'' (Some 0.7)]
      else [])"

text \<open>
  Two stations on the plane, \<open>A\<close> at 10 km and \<open>B\<close> at 150 km from the origin, once
  with a spatial reference that names EPSG:4326 and once with one that names no
  authority.
\<close>

definition example_layer :: "(real \<times> real \<times> real) feature list" where
  "example_layer = [Feature ''A'' (10000, 0, 0), Feature ''B'' (0, 150000, 0)]"

definition example_stations :: "(real \<times> real \<times> real) station_data" where
  "example_stations = \<lparr>features = Some example_layer, epsg = Some 4326\<rparr>"

definition example_stations_no_srs :: "(real \<times> real \<times> real) station_data" where
  "example_stations_no_srs = \<lparr>features = Some example_layer, epsg = None\<rparr>"


section \<open>Properties\<close>

subsection \<open>The trimming loop\<close>

lemma drop_trailing_nan_Nil: "drop_trailing_nan [] = Inl IndexError"
  by (simp add: drop_trailing_nan.simps)

lemma drop_trailing_nan_snoc:
  "drop_trailing_nan (df @ [r]) =
     (if LEVEL r = None then drop_trailing_nan df else Inr (df @ [r]))"
  by (subst drop_trailing_nan.simps) (simp add: isnan_def)

lemma all_null_Nil: "all_null []"
  by (simp add: all_null_def)

lemma all_null_snoc: "all_null (df @ [r]) \<longleftrightarrow> all_null df \<and> LEVEL r = None"
  by (auto simp: all_null_def)

text \<open>What the loop computes, in closed form.\<close>

lemma drop_trailing_nan_eq:
  "drop_trailing_nan df =
     (if all_null df then Inl IndexError
      else Inr (rev (dropWhile (\<lambda>r. LEVEL r = None) (rev df))))"
proof (induction df rule: rev_induct)
  case Nil
  show ?case by (simp add: drop_trailing_nan_Nil all_null_Nil)
next
  case (snoc r df)
  show ?case
  proof (cases "LEVEL r = None")
    case True
    then show ?thesis
      using snoc.IH by (simp add: drop_trailing_nan_snoc all_null_snoc)
  next
    case False
    then show ?thesis
      by (auto simp: drop_trailing_nan_snoc all_null_snoc)
  qed
qed

lemma trimmed_Nil_iff:
  "trimmed df = [] \<longleftrightarrow> all_null df"
  by (simp add: trimmed_def all_null_def list_all_iff)

lemma trimmed_last:
  assumes "trimmed df \<noteq> []"
  shows "LEVEL (last (trimmed df)) \<noteq> None"
proof -
  let ?ys = "dropWhile (\<lambda>r. LEVEL r = None) (rev df)"
  from assms have ne: "?ys \<noteq> []"
    by (simp add: trimmed_def)
  then have "LEVEL (hd ?ys) \<noteq> None"
    by (rule hd_dropWhile)
  with ne show ?thesis
    by (simp add: trimmed_def last_rev)
qed

subsection \<open>The loop over the stations\<close>

text \<open>The loop never raises; the state it leaves, in closed form.\<close>

lemma assemble_eq:
  "assemble hydro_data stations st =
     Inr \<lparr>hydrometric_data =
            (\<lambda>s. if s \<in> set stations \<and> \<not> all_null (hydro_data s)
                 then Some (trimmed (hydro_data s)) else hydrometric_data st s),
          stations_without_data =
            stations_without_data st @ filter (\<lambda>s. all_null (hydro_data s)) stations\<rparr>"
proof (induction stations arbitrary: st)
  case Nil
  show ?case by simp
next
  case (Cons station stations)
  have nil: "hydro_data station = [] \<Longrightarrow> all_null (hydro_data station)"
    by (simp add: all_null_Nil)
  show ?case
    by (auto simp: Cons.IH drop_trailing_nan_eq trimmed_def fun_eq_iff dest: nil)
qed

subsection \<open>Removing the stations without data\<close>

lemma remove_stations_skip:
  "\<forall>y \<in> set ys. y \<noteq> x \<Longrightarrow>
   remove_stations ys (x # l) =
     (case remove_stations ys l of Inl e \<Rightarrow> Inl e | Inr l' \<Rightarrow> Inr (x # l'))"
proof (induction ys arbitrary: l)
  case Nil
  show ?case by simp
next
  case (Cons y ys)
  then show ?case
    by (auto simp: list_remove_def)
qed

lemma remove_stations_filter:
  "remove_stations (filter (\<lambda>s. \<not> P s) xs) xs = Inr (filter P xs)"
proof (induction xs)
  case Nil
  show ?case by simp
next
  case (Cons x xs)
  show ?case
  proof (cases "P x")
    case True
    then have "\<forall>y \<in> set (filter (\<lambda>s. \<not> P s) xs). y \<noteq> x" by auto
    then show ?thesis
      using True Cons.IH by (simp add: remove_stations_skip)
  next
    case False
    then show ?thesis
      using Cons.IH by (simp add: list_remove_def)
  qed
qed

text \<open>The whole cell, in closed form.\<close>

lemma build_series_eq:
  "build_series hydro_data stations =
     (if filter (\<lambda>s. \<not> all_null (hydro_data s)) stations = []
      then Inl (NameError ''num_months'')
      else Inr (\<lparr>hydrometric_data =
                   (\<lambda>s. if s \<in> set stations \<and> \<not> all_null (hydro_data s)
                        then Some (trimmed (hydro_data s)) else None),
                 stations_without_data = filter (\<lambda>s. all_null (hydro_data s)) stations\<rparr>,
                filter (\<lambda>s. \<not> all_null (hydro_data s)) stations))"
proof -
  have rm: "remove_stations (filter (\<lambda>s. all_null (hydro_data s)) stations) stations =
      Inr (filter (\<lambda>s. \<not> all_null (hydro_data s)) stations)"
    using remove_stations_filter [of "\<lambda>s. \<not> all_null (hydro_data s)" stations] by simp
  have st: "assemble hydro_data stations initial_state =
     Inr \<lparr>hydrometric_data =
                   (\<lambda>s. if s \<in> set stations \<and> \<not> all_null (hydro_data s)
                        then Some (trimmed (hydro_data s)) else None),
                 stations_without_data = filter (\<lambda>s. all_null (hydro_data s)) stations\<rparr>"
    unfolding assemble_eq [of hydro_data stations initial_state]
    by (simp add: initial_state_def cong: if_cong)
  show ?thesis
    unfolding build_series_def st by (simp add: rm)
qed

subsection \<open>Trimmed frames\<close>

lemma trimmed_not_all_null:
  assumes "\<not> all_null df"
  shows "\<not> all_null (trimmed df)"
proof -
  from assms have ne: "trimmed df \<noteq> []"
    by (simp add: trimmed_Nil_iff)
  then have "LEVEL (last (trimmed df)) \<noteq> None"
    by (rule trimmed_last)
  moreover have "last (trimmed df) \<in> set (trimmed df)"
    using ne by simp
  ultimately have "\<exists>r \<in> set (trimmed df). LEVEL r \<noteq> None"
    by (rule bexI)
  then show ?thesis
    by (simp add: all_null_def list_all_iff)
qed

lemma trimmed_idem: "trimmed (trimmed df) = trimmed df"
proof (cases "trimmed df = []")
  case True
  then show ?thesis by (simp add: trimmed_def)
next
  case False
  let ?ys = "dropWhile (\<lambda>r. LEVEL r = None) (rev df)"
  from False have ne: "?ys \<noteq> []"
    by (simp add: trimmed_def)
  then have "LEVEL (hd ?ys) \<noteq> None"
    by (rule hd_dropWhile)
  then have "dropWhile (\<lambda>r. LEVEL r = None) ?ys = ?ys"
    using ne by (cases ?ys) auto
  then show ?thesis by (simp add: trimmed_def)
qed

text \<open>The trimmed frame is a prefix of the frame, and what follows it has no level.\<close>

lemma trimmed_split:
  "df = trimmed df @ rev (takeWhile (\<lambda>r. LEVEL r = None) (rev df))"
proof -
  have "rev (rev df) =
      rev (takeWhile (\<lambda>r. LEVEL r = None) (rev df) @ dropWhile (\<lambda>r. LEVEL r = None) (rev df))"
    by (simp only: takeWhile_dropWhile_id)
  then show ?thesis
    by (simp only: rev_rev_ident rev_append trimmed_def)
qed

lemma trimmed_prefix:
  "\<exists>k \<le> length df.
     trimmed df = take k df \<and>
     (\<forall>r \<in> set (drop k df). LEVEL r = None) \<and>
     (k = 0 \<or> LEVEL (df ! (k - 1)) \<noteq> None)"
proof -
  let ?t = "trimmed df"
  let ?tl = "rev (takeWhile (\<lambda>r. LEVEL r = None) (rev df))"
  have split: "df = ?t @ ?tl" by (rule trimmed_split)
  have len: "length ?t \<le> length df"
    by (subst (2) split) simp
  have tk: "take (length ?t) df = ?t"
    by (subst split) simp
  have dr: "drop (length ?t) df = ?tl"
    by (subst split) simp
  have tl: "\<forall>r \<in> set ?tl. LEVEL r = None"
    by (auto dest: set_takeWhileD)
  have lst: "LEVEL (df ! (length ?t - 1)) \<noteq> None" if ne: "?t \<noteq> []"
  proof -
    have "df ! (length ?t - 1) = ?t ! (length ?t - 1)"
      using ne by (subst split) (simp add: nth_append)
    also have "\<dots> = last ?t"
      using ne by (simp add: last_conv_nth)
    finally show ?thesis
      using trimmed_last [OF ne] by simp
  qed
  show ?thesis
  proof (intro exI conjI)
    show "length ?t \<le> length df" by (rule len)
    show "?t = take (length ?t) df" by (simp add: tk)
    show "\<forall>r \<in> set (drop (length ?t) df). LEVEL r = None"
      using tl by (simp only: dr)
    show "length ?t = 0 \<or> LEVEL (df ! (length ?t - 1)) \<noteq> None"
      using lst by auto
  qed
qed

subsection \<open>The series of one station\<close>

lemma assemble_initial:
  "assemble hydro_data stations initial_state =
     Inr \<lparr>hydrometric_data =
            (\<lambda>s. if s \<in> set stations \<and> \<not> all_null (hydro_data s)
                 then Some (trimmed (hydro_data s)) else None),
          stations_without_data = filter (\<lambda>s. all_null (hydro_data s)) stations\<rparr>"
  unfolding assemble_eq [of hydro_data stations initial_state]
  by (simp add: initial_state_def cong: if_cong)

lemma station_series:
  assumes "s \<in> set stations"
  shows "\<exists>k \<le> length (hydro_data s).
     (\<forall>r \<in> set (drop k (hydro_data s)). LEVEL r = None) \<and>
     (k = 0 \<or> LEVEL (hydro_data s ! (k - 1)) \<noteq> None) \<and>
     (if s \<in> set stations \<and> \<not> all_null (hydro_data s)
      then Some (trimmed (hydro_data s)) else None) =
       (if k = 0 then None else Some (take k (hydro_data s)))"
proof -
  let ?df = "hydro_data s"
  obtain k where k: "k \<le> length ?df" "trimmed ?df = take k ?df"
      "\<forall>r \<in> set (drop k ?df). LEVEL r = None"
      "k = 0 \<or> LEVEL (?df ! (k - 1)) \<noteq> None"
    using trimmed_prefix [of ?df] by blast
  have "all_null ?df \<longleftrightarrow> take k ?df = []"
    using k(2) trimmed_Nil_iff [of ?df] by simp
  also have "\<dots> \<longleftrightarrow> k = 0"
    using k(1) by auto
  finally have z: "all_null ?df \<longleftrightarrow> k = 0" .
  show ?thesis
    using k assms z by (intro exI [of _ k]) simp
qed

lemma all_null_iff: "all_null df \<longleftrightarrow> (\<forall>r \<in> set df. LEVEL r = None)"
  by (simp add: all_null_def list_all_iff)

lemma assemble_result:
  "\<exists>st. assemble hydro_data stations initial_state = Inr st \<and>
     hydrometric_data st =
       (\<lambda>s. if s \<in> set stations \<and> \<not> all_null (hydro_data s)
            then Some (trimmed (hydro_data s)) else None) \<and>
     stations_without_data st = filter (\<lambda>s. all_null (hydro_data s)) stations"
  unfolding assemble_initial by simp

subsection \<open>The end of the cell\<close>

lemma filter_Nil_iff_set: "filter P xs = [] \<longleftrightarrow> (\<forall>x \<in> set xs. \<not> P x)"
  by (simp add: filter_empty_conv)

text \<open>
  When no station has a usable level, the cell ends in the \<^verbatim>\<open>NameError\<close>; it never
  ends in a \<^verbatim>\<open>ValueError\<close>.
\<close>

lemma build_series_all_excluded:
  assumes "\<forall>s \<in> set stations. all_null (hydro_data s)"
  shows "build_series hydro_data stations = Inl (NameError ''num_months'')"
  using assms by (simp add: build_series_eq filter_Nil_iff_set)

lemma build_series_no_ValueError: "build_series hydro_data stations \<noteq> Inl (ValueError m)"
  by (simp add: build_series_eq)

subsection \<open>The selection of the stations\<close>

text \<open>The loop keeps, in the order of the layer, the features that pass its test.\<close>

lemma selection_loop_eq:
  "selection_loop G transform point_buffer layer stations =
     stations @ map feature_STATION_NUMBER
       (filter (\<lambda>feature. Intersects G (transform (GetGeometryRef feature)) point_buffer) layer)"
  by (induction layer arbitrary: stations) (simp_all add: Let_def)

text \<open>The two cells in closed form, with and without an authority code.\<close>

lemma select_within_radius_eq:
  assumes "epsg station_data = Some code"
  shows "select_within_radius G lat long buffer projection station_data =
     (case features station_data of
        None \<Rightarrow> Inl (ValueError NoStationsFound)
      | Some layer \<Rightarrow>
          if layer = [] then Inl (ValueError NoStationsFound)
          else if filter (in_buffer_zone G lat long buffer projection code) layer = []
          then Inl (ValueError (NoStationsWithin buffer))
          else Inr (map feature_STATION_NUMBER
                 (filter (in_buffer_zone G lat long buffer projection code) layer)))"
proof -
  have "in_buffer_zone G lat long buffer projection code =
      (\<lambda>feature. Intersects G (Transform G code projection (GetGeometryRef feature))
         (Buffer G (Transform G code projection (Point G long lat)) (buffer * 1000)))"
    by (simp add: fun_eq_iff in_buffer_zone_def)
  then show ?thesis
    using assms
    by (simp add: select_within_radius_def selection_loop_eq Let_def split: option.splits)
qed

lemma select_within_radius_no_srs:
  assumes "epsg station_data = None"
  shows "select_within_radius G lat long buffer projection station_data =
     (if features station_data = None \<or> features station_data = Some []
      then Inl (ValueError NoStationsFound) else Inl TypeError)"
  using assms by (simp add: select_within_radius_def split: option.splits)


text \<open>On the plane, the station at 10 km is inside the 100 km buffer and the one at 150 km is not.\<close>

lemma example_in_buffer_zone:
  "in_buffer_zone plane_gdal 0 0 100 3347 4326 (Feature ''A'' (10000, 0, 0))"
  "\<not> in_buffer_zone plane_gdal 0 0 100 3347 4326 (Feature ''B'' (0, 150000, 0))"
  by (simp_all add: in_buffer_zone_def plane_gdal_def power2_eq_square)

subsection \<open>Selection by distance\<close>





section \<open>The claims\<close>

text \<open>
  C10. The loop that drops the trailing rows without a level is entered only behind the
  test that not all levels are null. So the loop over the stations never raises, for
  any responses, any list of stations and any state: the read of the last row never
  meets a frame without rows. On its own the loop raises \<^verbatim>\<open>IndexError\<close> exactly on
  the frames whose levels are all null, and on every other frame it returns, with a
  frame that still has rows. The loop is a total function: its termination is proved
  where it is defined.
\<close>

theorem trim_loop_safe:
  "(\<exists>st'. assemble hydro_data stations st = Inr st') \<and>
   (drop_trailing_nan df = Inl IndexError \<longleftrightarrow> all_null df) \<and>
   (\<not> all_null df \<longrightarrow> (\<exists>t. drop_trailing_nan df = Inr t \<and> t \<noteq> []))"
proof -
  have "trimmed df \<noteq> []" if "\<not> all_null df"
    using that by (simp add: trimmed_Nil_iff)
  then show ?thesis
    by (simp add: assemble_eq drop_trailing_nan_eq trimmed_def)
qed

theorem trim_loop_safe_witness:
  "\<not> all_null (example_data ''X'') \<and>
   (\<exists>t. drop_trailing_nan (example_data ''X'') = Inr t \<and> t \<noteq> [])"
proof -
  have h: "\<not> all_null (example_data ''X'')"
    by (simp add: example_data_def all_null_def obs_def)
  show ?thesis
    using h trim_loop_safe [of example_data "[''X'']" initial_state "example_data ''X''"]
    by simp
qed

text \<open>
  C8. Trimming is idempotent. Running the loop on a frame and then on its outcome is
  the same as running it once, and on a frame whose levels are not all null (the only
  frames the notebook trims) the loop returns a frame that the loop leaves as it is.
\<close>

theorem trim_idempotent:
  "(case drop_trailing_nan df of Inl e \<Rightarrow> Inl e | Inr t \<Rightarrow> drop_trailing_nan t) =
     drop_trailing_nan df \<and>
   (\<not> all_null df \<longrightarrow>
      (\<exists>t. drop_trailing_nan df = Inr t \<and> drop_trailing_nan t = Inr t))"
proof (cases "all_null df")
  case True
  then show ?thesis by (simp add: drop_trailing_nan_eq)
next
  case False
  have 1: "drop_trailing_nan df = Inr (trimmed df)"
    using False by (simp add: drop_trailing_nan_eq trimmed_def)
  have "drop_trailing_nan (trimmed df) = Inr (trimmed (trimmed df))"
    using trimmed_not_all_null [OF False]
    by (simp add: drop_trailing_nan_eq [of "trimmed df"] trimmed_def [of "trimmed df"])
  then have 2: "drop_trailing_nan (trimmed df) = Inr (trimmed df)"
    by (simp only: trimmed_idem)
  show ?thesis using False by (simp add: 1 2)
qed

theorem trim_idempotent_witness:
  "\<not> all_null (example_data ''X'') \<and>
   (\<exists>t. drop_trailing_nan (example_data ''X'') = Inr t \<and> drop_trailing_nan t = Inr t)"
proof -
  have h: "\<not> all_null (example_data ''X'')"
    by (simp add: example_data_def all_null_def obs_def)
  show ?thesis
    using h trim_idempotent [of "example_data ''X''"] by simp
qed

text \<open>
  C2. For every station of the list, the frame kept for it is the frame of the response
  cut after its last row with a level: there is a length \<open>k\<close> such that every row from
  position \<open>k\<close> on has no level, row \<open>k - 1\<close> has one unless \<open>k = 0\<close>, and the dictionary
  holds the first \<open>k\<close> rows as they came, gaps between them included, or holds nothing
  for the station when \<open>k = 0\<close>. In particular the rows
  \<open>(d1, 1.2), (d2, missing), (d3, missing)\<close> of station \<open>X\<close> become the single row
  \<open>(d1, 1.2)\<close>.
\<close>

theorem trailing_trim:
  "(\<exists>st. assemble hydro_data stations initial_state = Inr st \<and>
      (\<forall>s \<in> set stations. \<exists>k \<le> length (hydro_data s).
          (\<forall>r \<in> set (drop k (hydro_data s)). LEVEL r = None) \<and>
          (k = 0 \<or> LEVEL (hydro_data s ! (k - 1)) \<noteq> None) \<and>
          hydrometric_data st s = (if k = 0 then None else Some (take k (hydro_data s))))) \<and>
   drop_trailing_nan (example_data ''X'') = Inr [obs ''X'' ''2018-06-01'' (Some 1.2)] \<and>
   (\<exists>st. assemble example_data [''X''] initial_state = Inr st \<and>
      hydrometric_data st ''X'' = Some [obs ''X'' ''2018-06-01'' (Some 1.2)])"
proof (intro conjI)
  let ?st = "\<lparr>hydrometric_data =
            (\<lambda>s. if s \<in> set stations \<and> \<not> all_null (hydro_data s)
                 then Some (trimmed (hydro_data s)) else None),
          stations_without_data = filter (\<lambda>s. all_null (hydro_data s)) stations\<rparr>"
  have run: "assemble hydro_data stations initial_state = Inr ?st"
    by (rule assemble_initial)
  have each: "\<forall>s \<in> set stations. \<exists>k \<le> length (hydro_data s).
          (\<forall>r \<in> set (drop k (hydro_data s)). LEVEL r = None) \<and>
          (k = 0 \<or> LEVEL (hydro_data s ! (k - 1)) \<noteq> None) \<and>
          hydrometric_data ?st s = (if k = 0 then None else Some (take k (hydro_data s)))"
  proof
    fix s
    assume "s \<in> set stations"
    from station_series [OF this, of hydro_data]
    show "\<exists>k \<le> length (hydro_data s).
          (\<forall>r \<in> set (drop k (hydro_data s)). LEVEL r = None) \<and>
          (k = 0 \<or> LEVEL (hydro_data s ! (k - 1)) \<noteq> None) \<and>
          hydrometric_data ?st s = (if k = 0 then None else Some (take k (hydro_data s)))"
      by (simp only: hydro_state.simps)
  qed
  from run each
  show "\<exists>st. assemble hydro_data stations initial_state = Inr st \<and>
      (\<forall>s \<in> set stations. \<exists>k \<le> length (hydro_data s).
          (\<forall>r \<in> set (drop k (hydro_data s)). LEVEL r = None) \<and>
          (k = 0 \<or> LEVEL (hydro_data s ! (k - 1)) \<noteq> None) \<and>
          hydrometric_data st s = (if k = 0 then None else Some (take k (hydro_data s))))"
    by (intro exI [of _ ?st] conjI)
next
  have nn: "\<not> all_null (example_data ''X'')"
    by (simp add: example_data_def all_null_def obs_def)
  have tr: "trimmed (example_data ''X'') = [obs ''X'' ''2018-06-01'' (Some 1.2)]"
    by (simp add: example_data_def trimmed_def obs_def)
  show "drop_trailing_nan (example_data ''X'') = Inr [obs ''X'' ''2018-06-01'' (Some 1.2)]"
    using nn tr by (simp add: drop_trailing_nan_eq trimmed_def)
  show "\<exists>st. assemble example_data [''X''] initial_state = Inr st \<and>
      hydrometric_data st ''X'' = Some [obs ''X'' ''2018-06-01'' (Some 1.2)]"
    unfolding assemble_initial using nn tr by simp
qed

theorem trailing_trim_witness:
  "''Z'' \<in> set [''Z'', ''Y''] \<and>
   (\<exists>st. assemble example_data [''Z'', ''Y''] initial_state = Inr st \<and>
      (\<exists>k \<le> length (example_data ''Z'').
          (\<forall>r \<in> set (drop k (example_data ''Z'')). LEVEL r = None) \<and>
          (k = 0 \<or> LEVEL (example_data ''Z'' ! (k - 1)) \<noteq> None) \<and>
          hydrometric_data st ''Z'' =
            (if k = 0 then None else Some (take k (example_data ''Z'')))))"
proof -
  have h: "''Z'' \<in> set [''Z'', ''Y'']"
    by simp
  from trailing_trim [of example_data "[''Z'', ''Y'']"]
  obtain st where run: "assemble example_data [''Z'', ''Y''] initial_state = Inr st"
    and each: "\<forall>s \<in> set [''Z'', ''Y'']. \<exists>k \<le> length (example_data s).
          (\<forall>r \<in> set (drop k (example_data s)). LEVEL r = None) \<and>
          (k = 0 \<or> LEVEL (example_data s ! (k - 1)) \<noteq> None) \<and>
          hydrometric_data st s = (if k = 0 then None else Some (take k (example_data s)))"
    by blast
  from each h have "\<exists>k \<le> length (example_data ''Z'').
          (\<forall>r \<in> set (drop k (example_data ''Z'')). LEVEL r = None) \<and>
          (k = 0 \<or> LEVEL (example_data ''Z'' ! (k - 1)) \<noteq> None) \<and>
          hydrometric_data st ''Z'' =
            (if k = 0 then None else Some (take k (example_data ''Z'')))"
    by (rule bspec)
  with run h show ?thesis
    by blast
qed

text \<open>
  C3. After the loop over the stations, which never fails, every station of the list is
  either a key of \<^verbatim>\<open>hydrometric_data\<close> or an element of \<^verbatim>\<open>stations_without_data\<close>
  and never both; the two hold nothing else. A station whose response has no rows, or
  only rows without a level, is in \<^verbatim>\<open>stations_without_data\<close> and has no entry in
  the dictionary, and no frame in the dictionary is without rows. This is the state
  that the cell hands on whenever it does not raise.
\<close>

theorem exclusion_partition:
  "\<exists>st. assemble hydro_data stations initial_state = Inr st \<and>
     (\<forall>s \<in> set stations.
        (s \<in> dom (hydrometric_data st)) \<noteq> (s \<in> set (stations_without_data st))) \<and>
     dom (hydrometric_data st) \<inter> set (stations_without_data st) = {} \<and>
     dom (hydrometric_data st) \<union> set (stations_without_data st) = set stations \<and>
     (\<forall>s \<in> set stations.
        hydro_data s = [] \<or> (\<forall>r \<in> set (hydro_data s). LEVEL r = None) \<longrightarrow>
        s \<in> set (stations_without_data st) \<and> hydrometric_data st s = None) \<and>
     (\<forall>s df. hydrometric_data st s = Some df \<longrightarrow> df \<noteq> []) \<and>
     (\<forall>r. build_series hydro_data stations = Inr r \<longrightarrow> fst r = st)"
proof -
  obtain st where run: "assemble hydro_data stations initial_state = Inr st"
    and hd: "hydrometric_data st =
       (\<lambda>s. if s \<in> set stations \<and> \<not> all_null (hydro_data s)
            then Some (trimmed (hydro_data s)) else None)"
    and swd: "stations_without_data st = filter (\<lambda>s. all_null (hydro_data s)) stations"
    using assemble_result [of hydro_data stations] by blast
  have d: "dom (hydrometric_data st) = {s \<in> set stations. \<not> all_null (hydro_data s)}"
    by (auto simp: hd dom_def)
  have e: "set (stations_without_data st) = {s \<in> set stations. all_null (hydro_data s)}"
    by (auto simp: swd)
  have 1: "\<forall>s \<in> set stations.
        (s \<in> dom (hydrometric_data st)) \<noteq> (s \<in> set (stations_without_data st))"
    unfolding d e by blast
  have 2: "dom (hydrometric_data st) \<inter> set (stations_without_data st) = {}"
    unfolding d e by blast
  have 3: "dom (hydrometric_data st) \<union> set (stations_without_data st) = set stations"
    unfolding d e by blast
  have 4: "\<forall>s \<in> set stations.
        hydro_data s = [] \<or> (\<forall>r \<in> set (hydro_data s). LEVEL r = None) \<longrightarrow>
        s \<in> set (stations_without_data st) \<and> hydrometric_data st s = None"
  proof (intro ballI impI)
    fix s
    assume s: "s \<in> set stations"
      and "hydro_data s = [] \<or> (\<forall>r \<in> set (hydro_data s). LEVEL r = None)"
    then have "all_null (hydro_data s)"
      by (auto simp: all_null_iff)
    with s show "s \<in> set (stations_without_data st) \<and> hydrometric_data st s = None"
      by (simp add: e hd)
  qed
  have 5: "\<forall>s df. hydrometric_data st s = Some df \<longrightarrow> df \<noteq> []"
    by (auto simp: hd trimmed_Nil_iff split: if_splits)
  have 6: "\<forall>r. build_series hydro_data stations = Inr r \<longrightarrow> fst r = st"
    by (auto simp: build_series_def run split: sum.splits if_splits)
  from run 1 2 3 4 5 6 show ?thesis
    by blast
qed

theorem exclusion_partition_witness:
  "''Y'' \<in> set [''X'', ''Y'', ''W''] \<and> all_null (example_data ''Y'') \<and>
   ''W'' \<in> set [''X'', ''Y'', ''W''] \<and> example_data ''W'' = [] \<and>
   (\<exists>st. assemble example_data [''X'', ''Y'', ''W''] initial_state = Inr st \<and>
      ''Y'' \<in> set (stations_without_data st) \<and> hydrometric_data st ''Y'' = None \<and>
      ''W'' \<in> set (stations_without_data st) \<and> hydrometric_data st ''W'' = None)"
proof -
  have y: "''Y'' \<in> set [''X'', ''Y'', ''W'']" and w: "''W'' \<in> set [''X'', ''Y'', ''W'']"
    by simp_all
  have ny: "\<forall>r \<in> set (example_data ''Y''). LEVEL r = None"
    by (simp add: example_data_def obs_def)
  have nw: "example_data ''W'' = []"
    by (simp add: example_data_def)
  from exclusion_partition [of example_data "[''X'', ''Y'', ''W'']"]
  obtain st where run: "assemble example_data [''X'', ''Y'', ''W''] initial_state = Inr st"
    and excl: "\<forall>s \<in> set [''X'', ''Y'', ''W''].
        example_data s = [] \<or> (\<forall>r \<in> set (example_data s). LEVEL r = None) \<longrightarrow>
        s \<in> set (stations_without_data st) \<and> hydrometric_data st s = None"
    by blast
  from excl y ny have ey: "''Y'' \<in> set (stations_without_data st) \<and> hydrometric_data st ''Y'' = None"
    by blast
  from excl w nw have ew: "''W'' \<in> set (stations_without_data st) \<and> hydrometric_data st ''W'' = None"
    by blast
  from ny have "all_null (example_data ''Y'')"
    by (simp add: all_null_iff)
  with y w nw run ey ew show ?thesis
    by blast
qed

text \<open>
  C6. Every frame in \<^verbatim>\<open>hydrometric_data\<close> after the loop has at least one row, has a
  row with a level, and ends in a row with a level. A station whose response has no
  rows, or only rows without a level, has no frame in the dictionary.
\<close>

theorem entity_series_invariant:
  "\<exists>st. assemble hydro_data stations initial_state = Inr st \<and>
     (\<forall>s df. hydrometric_data st s = Some df \<longrightarrow>
        df \<noteq> [] \<and> (\<exists>r \<in> set df. LEVEL r \<noteq> None) \<and> LEVEL (last df) \<noteq> None) \<and>
     (\<forall>s. hydro_data s = [] \<or> (\<forall>r \<in> set (hydro_data s). LEVEL r = None) \<longrightarrow>
        hydrometric_data st s = None)"
proof -
  obtain st where run: "assemble hydro_data stations initial_state = Inr st"
    and hd: "hydrometric_data st =
       (\<lambda>s. if s \<in> set stations \<and> \<not> all_null (hydro_data s)
            then Some (trimmed (hydro_data s)) else None)"
    using assemble_result [of hydro_data stations] by blast
  have 1: "\<forall>s df. hydrometric_data st s = Some df \<longrightarrow>
        df \<noteq> [] \<and> (\<exists>r \<in> set df. LEVEL r \<noteq> None) \<and> LEVEL (last df) \<noteq> None"
  proof (intro allI impI)
    fix s df
    assume "hydrometric_data st s = Some df"
    then have df: "df = trimmed (hydro_data s)" and nn: "\<not> all_null (hydro_data s)"
      by (auto simp: hd split: if_splits)
    from nn have ne: "df \<noteq> []"
      by (simp add: df trimmed_Nil_iff)
    from nn have "\<not> all_null df"
      unfolding df by (rule trimmed_not_all_null)
    then have ex: "\<exists>r \<in> set df. LEVEL r \<noteq> None"
      by (simp add: all_null_iff)
    from ne have "LEVEL (last df) \<noteq> None"
      unfolding df by (rule trimmed_last)
    with ne ex show "df \<noteq> [] \<and> (\<exists>r \<in> set df. LEVEL r \<noteq> None) \<and> LEVEL (last df) \<noteq> None"
      by blast
  qed
  have 2: "\<forall>s. hydro_data s = [] \<or> (\<forall>r \<in> set (hydro_data s). LEVEL r = None) \<longrightarrow>
        hydrometric_data st s = None"
  proof (intro allI impI)
    fix s
    assume "hydro_data s = [] \<or> (\<forall>r \<in> set (hydro_data s). LEVEL r = None)"
    then have "all_null (hydro_data s)"
      by (auto simp: all_null_iff)
    then show "hydrometric_data st s = None"
      by (simp add: hd)
  qed
  from run 1 2 show ?thesis
    by blast
qed

theorem entity_series_invariant_witness:
  "all_null (example_data ''Y'') \<and>
   (\<exists>st. assemble example_data [''Z'', ''Y''] initial_state = Inr st \<and>
      hydrometric_data st ''Z'' = Some (example_data ''Z'') \<and>
      example_data ''Z'' \<noteq> [] \<and>
      (\<exists>r \<in> set (example_data ''Z''). LEVEL r \<noteq> None) \<and>
      LEVEL (last (example_data ''Z'')) \<noteq> None \<and>
      hydrometric_data st ''Y'' = None)"
proof -
  have ny: "\<forall>r \<in> set (example_data ''Y''). LEVEL r = None"
    by (simp add: example_data_def obs_def)
  have nz: "\<not> all_null (example_data ''Z'')"
    by (simp add: example_data_def all_null_def obs_def)
  have tz: "trimmed (example_data ''Z'') = example_data ''Z''"
    by (simp add: example_data_def trimmed_def obs_def)
  from entity_series_invariant [of example_data "[''Z'', ''Y'']"]
  obtain st where run: "assemble example_data [''Z'', ''Y''] initial_state = Inr st"
    and inv: "\<forall>s df. hydrometric_data st s = Some df \<longrightarrow>
        df \<noteq> [] \<and> (\<exists>r \<in> set df. LEVEL r \<noteq> None) \<and> LEVEL (last df) \<noteq> None"
    and none: "\<forall>s. example_data s = [] \<or> (\<forall>r \<in> set (example_data s). LEVEL r = None) \<longrightarrow>
        hydrometric_data st s = None"
    by blast
  have z: "hydrometric_data st ''Z'' = Some (example_data ''Z'')"
    using run nz tz unfolding assemble_initial by auto
  from inv z have "example_data ''Z'' \<noteq> [] \<and>
      (\<exists>r \<in> set (example_data ''Z''). LEVEL r \<noteq> None) \<and>
      LEVEL (last (example_data ''Z'')) \<noteq> None"
    by blast
  moreover from none ny have "hydrometric_data st ''Y'' = None"
    by blast
  moreover from ny have "all_null (example_data ''Y'')"
    by (simp add: all_null_iff)
  ultimately show ?thesis
    using run z by blast
qed

text \<open>
  C9, as the notebook has it. The outcome of the cell is determined by the responses
  and the stations and does not depend on the order of the stations: for the same
  responses and two lists with the same stations, in any order and with any
  repetitions, the loop leaves the same dictionary and the same set of stations without
  data, and the whole cell either raises the same exception in both runs or returns the
  same dictionary, the same set of stations without data and the same set of stations
  kept. The cell is not free of effects on what it was given: whenever it returns, the
  list \<^verbatim>\<open>stations\<close> holds only the stations with a usable level, in their old order.
\<close>

theorem assembler_order_independent:
  assumes "set stations = set stations'"
  shows "(\<exists>st st'. assemble hydro_data stations initial_state = Inr st \<and>
            assemble hydro_data stations' initial_state = Inr st' \<and>
            hydrometric_data st = hydrometric_data st' \<and>
            set (stations_without_data st) = set (stations_without_data st')) \<and>
         map_sum id (\<lambda>r. (hydrometric_data (fst r), set (stations_without_data (fst r)), set (snd r)))
           (build_series hydro_data stations) =
         map_sum id (\<lambda>r. (hydrometric_data (fst r), set (stations_without_data (fst r)), set (snd r)))
           (build_series hydro_data stations') \<and>
         stations_after_cell hydro_data stations =
           (if filter (\<lambda>s. \<not> all_null (hydro_data s)) stations = []
            then Inl (NameError ''num_months'')
            else Inr (filter (\<lambda>s. \<not> all_null (hydro_data s)) stations))"
proof (intro conjI)
  show "\<exists>st st'. assemble hydro_data stations initial_state = Inr st \<and>
            assemble hydro_data stations' initial_state = Inr st' \<and>
            hydrometric_data st = hydrometric_data st' \<and>
            set (stations_without_data st) = set (stations_without_data st')"
    unfolding assemble_initial using assms by simp
next
  have e: "filter (\<lambda>s. \<not> all_null (hydro_data s)) stations = [] \<longleftrightarrow>
      filter (\<lambda>s. \<not> all_null (hydro_data s)) stations' = []"
    using assms by (simp only: filter_Nil_iff_set)
  show "map_sum id (\<lambda>r. (hydrometric_data (fst r), set (stations_without_data (fst r)), set (snd r)))
           (build_series hydro_data stations) =
         map_sum id (\<lambda>r. (hydrometric_data (fst r), set (stations_without_data (fst r)), set (snd r)))
           (build_series hydro_data stations')"
  proof (cases "filter (\<lambda>s. \<not> all_null (hydro_data s)) stations = []")
    case True
    with e have "filter (\<lambda>s. \<not> all_null (hydro_data s)) stations' = []"
      by simp
    with True show ?thesis
      by (simp add: build_series_eq)
  next
    case False
    with e have "filter (\<lambda>s. \<not> all_null (hydro_data s)) stations' \<noteq> []"
      by simp
    with False show ?thesis
      using assms by (simp add: build_series_eq)
  qed
next
  show "stations_after_cell hydro_data stations =
           (if filter (\<lambda>s. \<not> all_null (hydro_data s)) stations = []
            then Inl (NameError ''num_months'')
            else Inr (filter (\<lambda>s. \<not> all_null (hydro_data s)) stations))"
    by (simp add: stations_after_cell_def build_series_eq)
qed

theorem assembler_order_independent_witness:
  "set [''X'', ''Y'', ''Z''] = set [''Z'', ''Y'', ''X'', ''Z''] \<and>
   map_sum id (\<lambda>r. (hydrometric_data (fst r), set (stations_without_data (fst r)), set (snd r)))
     (build_series example_data [''X'', ''Y'', ''Z'']) =
   map_sum id (\<lambda>r. (hydrometric_data (fst r), set (stations_without_data (fst r)), set (snd r)))
     (build_series example_data [''Z'', ''Y'', ''X'', ''Z''])"
proof -
  have h: "set [''X'', ''Y'', ''Z''] = set [''Z'', ''Y'', ''X'', ''Z'']"
    by auto
  from assembler_order_independent [OF h, of example_data] h show ?thesis
    by blast
qed

text \<open>
  C9 as stated calls the cell free of side effects. Given the list \<open>X, Y\<close>, where \<open>Y\<close>
  has no level, the cell leaves the list \<open>X\<close> in the variable \<^verbatim>\<open>stations\<close>: the list it
  was given has changed.
\<close>

theorem stations_mutated_counterexample:
  "stations_after_cell example_data [''X'', ''Y''] = Inr [''X''] \<and>
   stations_after_cell example_data [''X'', ''Y''] \<noteq> Inr [''X'', ''Y'']"
proof -
  have "\<not> all_null (example_data ''X'')" and "all_null (example_data ''Y'')"
    by (simp_all add: example_data_def all_null_def obs_def)
  then show ?thesis
    by (simp add: stations_after_cell_def build_series_eq)
qed

text \<open>
  C4. When every station ends up without data, the cell means to raise a
  \<^verbatim>\<open>ValueError\<close> that says so, but the message refers to the unbound name
  \<^verbatim>\<open>num_months\<close>: with station \<open>Y\<close>, whose levels are all missing, and station \<open>W\<close>,
  which has no rows, the cell ends in \<^verbatim>\<open>NameError\<close>.
\<close>

theorem all_excluded_raises_NameError:
  "build_series example_data [''Y'', ''W''] = Inl (NameError ''num_months'')"
proof -
  have "all_null (example_data ''Y'')" and "all_null (example_data ''W'')"
    by (simp_all add: example_data_def all_null_def obs_def)
  then show ?thesis
    by (simp add: build_series_eq)
qed

text \<open>
  C5, as the notebook has it. When the spatial reference of the layer names an
  authority code, the selection raises the \<^verbatim>\<open>ValueError\<close> "No hydrometric stations
  were found" exactly when the response has no features (the key is absent or the list
  is empty), raises the \<^verbatim>\<open>ValueError\<close> "There are no hydrometric stations within
  ... km" exactly when there are features and none of them passes the test of the loop,
  and in every other case returns the numbers of the features that pass, a list that is
  not empty. Nothing else can happen.
\<close>

theorem selector_raises_iff_empty:
  assumes "epsg station_data = Some code"
  shows
   "(select_within_radius G lat long buffer projection station_data =
       Inl (ValueError NoStationsFound) \<longleftrightarrow>
     features station_data = None \<or> features station_data = Some []) \<and>
    (select_within_radius G lat long buffer projection station_data =
       Inl (ValueError (NoStationsWithin buffer)) \<longleftrightarrow>
     (\<exists>layer. features station_data = Some layer \<and> layer \<noteq> [] \<and>
        (\<forall>feature \<in> set layer. \<not> in_buffer_zone G lat long buffer projection code feature))) \<and>
    (\<forall>stations. select_within_radius G lat long buffer projection station_data = Inr stations \<longleftrightarrow>
       (\<exists>layer. features station_data = Some layer \<and> stations \<noteq> [] \<and>
          stations = map feature_STATION_NUMBER
            (filter (in_buffer_zone G lat long buffer projection code) layer))) \<and>
    (select_within_radius G lat long buffer projection station_data =
       Inl (ValueError NoStationsFound) \<or>
     select_within_radius G lat long buffer projection station_data =
       Inl (ValueError (NoStationsWithin buffer)) \<or>
     (\<exists>stations. stations \<noteq> [] \<and>
        select_within_radius G lat long buffer projection station_data = Inr stations))"
  unfolding select_within_radius_eq [OF assms]
  by (cases "features station_data") (auto simp: filter_empty_conv)

theorem selector_raises_iff_empty_witness:
  "epsg example_stations = Some 4326 \<and>
   select_within_radius plane_gdal 0 0 100 3347 example_stations = Inr [''A''] \<and>
   epsg (example_stations\<lparr>features := Some [Feature ''B'' (0, 150000, 0)]\<rparr>) = Some 4326 \<and>
   select_within_radius plane_gdal 0 0 100 3347
     (example_stations\<lparr>features := Some [Feature ''B'' (0, 150000, 0)]\<rparr>) =
     Inl (ValueError (NoStationsWithin 100))"
proof -
  have h: "epsg example_stations = Some 4326"
    by (simp add: example_stations_def)
  have h': "epsg (example_stations\<lparr>features := Some [Feature ''B'' (0, 150000, 0)]\<rparr>) = Some 4326"
    by (simp add: example_stations_def)
  have a: "select_within_radius plane_gdal 0 0 100 3347 example_stations = Inr [''A'']"
    using selector_raises_iff_empty [OF h, of plane_gdal 0 0 100 3347]
    by (simp add: example_stations_def example_layer_def example_in_buffer_zone)
  have b: "select_within_radius plane_gdal 0 0 100 3347
     (example_stations\<lparr>features := Some [Feature ''B'' (0, 150000, 0)]\<rparr>) =
     Inl (ValueError (NoStationsWithin 100))"
    using selector_raises_iff_empty [OF h', of plane_gdal 0 0 100 3347]
    by (simp add: example_stations_def example_in_buffer_zone)
  from h h' a b show ?thesis
    by blast
qed

text \<open>
  C5 as stated leaves the authority code out. Without one, and with two stations in the
  response, the selection neither returns nor raises one of its two messages: it stops
  at \<^verbatim>\<open>int(epsg)\<close>.
\<close>

theorem selector_no_srs_counterexample:
  "features example_stations_no_srs \<noteq> None \<and>
   features example_stations_no_srs \<noteq> Some [] \<and>
   select_within_radius plane_gdal 0 0 100 3347 example_stations_no_srs = Inl TypeError"
  by (simp add: select_within_radius_def example_stations_no_srs_def example_layer_def)

text \<open>
  C7, as the notebook has it. When the spatial reference of the layer names no
  authority code, the selection raises "No hydrometric stations were found" only if
  the response has no features; with features it stops at \<^verbatim>\<open>int(epsg)\<close> with a
  \<^verbatim>\<open>TypeError\<close>, which no cell catches.
\<close>

theorem selector_missing_srs:
  assumes "epsg station_data = None"
  shows "select_within_radius G lat long buffer projection station_data =
     (if features station_data = None \<or> features station_data = Some []
      then Inl (ValueError NoStationsFound) else Inl TypeError)"
  using assms by (simp add: select_within_radius_def split: option.splits)

theorem selector_missing_srs_witness:
  "epsg example_stations_no_srs = None \<and>
   select_within_radius plane_gdal 49 (-122) 100 3347 example_stations_no_srs = Inl TypeError \<and>
   epsg (example_stations_no_srs\<lparr>features := Some []\<rparr>) = None \<and>
   select_within_radius plane_gdal 49 (-122) 100 3347 (example_stations_no_srs\<lparr>features := Some []\<rparr>) =
     Inl (ValueError NoStationsFound)"
proof -
  have h: "epsg example_stations_no_srs = None"
    and h': "epsg (example_stations_no_srs\<lparr>features := Some []\<rparr>) = None"
    by (simp_all add: example_stations_no_srs_def)
  from selector_missing_srs [OF h, of plane_gdal 49 "-122" 100 3347]
    selector_missing_srs [OF h', of plane_gdal 49 "-122" 100 3347] h h'
  show ?thesis
    by (simp add: example_stations_no_srs_def example_layer_def)
qed

text \<open>
  C7 as stated expects "No hydrometric stations were found" here: one station, no
  authority code.
\<close>

theorem missing_srs_not_NoStationsFound_counterexample:
  "select_within_radius plane_gdal 0 0 100 3347
     \<lparr>features = Some [Feature ''A'' (10000, 0, 0)], epsg = None\<rparr> \<noteq>
   Inl (ValueError NoStationsFound)"
  by (simp add: select_within_radius_def)



end
